theory Spec2Isabelle
  imports Main "HOL-Library.List_Lexorder"
begin

section \<open>Python values\<close>

text \<open>
  A Python \<open>str\<close> is a sequence of Unicode code points; \<open>pystr\<close> turns a literal
  into one. Lists of code points are ordered lexicographically, as Python orders strings.
\<close>

type_synonym pstr = "nat list"

definition pystr :: "string \<Rightarrow> pstr" where
  "pystr cs = map of_char cs"

text \<open>
  The values the inventory handles. Python checks no annotation, so the arguments of a
  call and the object bound to \<open>stock_data\<close> can be any of them. \<open>PFloat\<close> is a
  float, whose value is not modelled. \<open>PBytes\<close> is a \<open>bytes\<close> object: neither a
  string nor a number, and not JSON serializable. Dictionary keys are strings; a
  dictionary is the list of its items in insertion order.
\<close>

datatype pyval =
    PNone
  | PBool bool
  | PInt int
  | PFloat
  | PStr pstr
  | PBytes "nat list"
  | PList "pyval list"
  | PDict "(pstr \<times> pyval) list"

text \<open>
  The exceptions, by class. \<open>OSError\<close> stands for the class and its subclasses
  (\<open>PermissionError\<close>, \<open>IsADirectoryError\<close> and the like). \<open>OtherError\<close> is an
  exception of any other class, raised by the code that uses the inventory;
  \<open>FalseError\<close> is such an exception whose class makes its objects false (it defines
  \<open>__bool__\<close> or \<open>__len__\<close>). Every other exception object is true.
  \<open>ValueError\<close> stands for the class and those of its subclasses that are not named
  here.
\<close>

datatype exc =
    OSError
  | JSONDecodeError
  | UnicodeDecodeError
  | ValueError
  | TypeError
  | AttributeError
  | OtherError string
  | FalseError string

fun is_true :: "exc \<Rightarrow> bool" where
  "is_true (FalseError name) = False"
| "is_true e = True"

text \<open>
  Evaluating an expression gives a value or raises; \<open>Float_op\<close> stands for
  arithmetic on a float, which the model does not compute.
\<close>

datatype 'a eval = Val 'a | Exc exc | Float_op

text \<open>
  A call returns, or raises with the state it leaves behind; \<open>Unmodelled\<close> is a
  call that computes with a float.
\<close>

datatype 's outcome = Returns 's | Raises exc 's | Unmodelled

text \<open>\<open>isinstance(v, int)\<close>: the integer of an \<open>int\<close> or a \<open>bool\<close>.\<close>

fun int_of :: "pyval \<Rightarrow> int option" where
  "int_of (PInt n) = Some n"
| "int_of (PBool b) = Some (if b then 1 else 0)"
| "int_of _ = None"

text \<open>\<open>v + n\<close> and \<open>v - n\<close> for an integer \<open>n\<close>.\<close>

fun py_add :: "pyval \<Rightarrow> int \<Rightarrow> pyval eval" where
  "py_add PFloat n = Float_op"
| "py_add v n = (case int_of v of Some a \<Rightarrow> Val (PInt (a + n)) | None \<Rightarrow> Exc TypeError)"

fun py_sub :: "pyval \<Rightarrow> int \<Rightarrow> pyval eval" where
  "py_sub PFloat n = Float_op"
| "py_sub v n = (case int_of v of Some a \<Rightarrow> Val (PInt (a - n)) | None \<Rightarrow> Exc TypeError)"

text \<open>\<open>v <= n\<close> and \<open>v < n\<close> for an integer \<open>n\<close>.\<close>

fun py_le :: "pyval \<Rightarrow> int \<Rightarrow> bool eval" where
  "py_le PFloat n = Float_op"
| "py_le v n = (case int_of v of Some a \<Rightarrow> Val (a \<le> n) | None \<Rightarrow> Exc TypeError)"

fun py_lt :: "pyval \<Rightarrow> int \<Rightarrow> bool eval" where
  "py_lt PFloat n = Float_op"
| "py_lt v n = (case int_of v of Some a \<Rightarrow> Val (a < n) | None \<Rightarrow> Exc TypeError)"

subsection \<open>Integers as text\<close>

text \<open>
  Since Python 3.11 the decimal text of an integer is refused when it has more than
  \<open>sys.int_info.default_max_str_digits\<close> digits: \<open>str\<close>, \<open>repr\<close>, an f-string
  and \<open>json.dump\<close> raise \<open>ValueError\<close> on such an integer. \<open>int_fits n\<close> says that
  \<open>n\<close> has a text. \<open>printable v\<close> says that \<open>repr(v)\<close> and \<open>str(v)\<close> succeed:
  no integer in \<open>v\<close> is too long.
\<close>

definition max_str_digits :: nat where
  "max_str_digits = 4300"

definition str_limit :: int where
  "str_limit = 10 ^ max_str_digits"

definition int_fits :: "int \<Rightarrow> bool" where
  "int_fits n \<longleftrightarrow> \<bar>n\<bar> < str_limit"

fun printable :: "pyval \<Rightarrow> bool" where
  "printable (PInt n) = int_fits n"
| "printable (PList xs) = list_all printable xs"
| "printable (PDict d) = list_all (\<lambda>kv. printable (snd kv)) d"
| "printable v = True"

subsection \<open>Strings\<close>

text \<open>The code points \<open>str.strip()\<close> removes: those for which \<open>str.isspace\<close> holds.\<close>

definition is_space :: "nat \<Rightarrow> bool" where
  "is_space c \<longleftrightarrow>
     (9 \<le> c \<and> c \<le> 13) \<or> (28 \<le> c \<and> c \<le> 32) \<or> c = 133 \<or> c = 160 \<or> c = 5760 \<or>
     (8192 \<le> c \<and> c \<le> 8202) \<or> c = 8232 \<or> c = 8233 \<or> c = 8239 \<or> c = 8287 \<or> c = 12288"

definition strip :: "pstr \<Rightarrow> pstr" where
  "strip s = rev (dropWhile is_space (rev (dropWhile is_space s)))"

text \<open>\<open>a in b\<close> for two strings: \<open>a\<close> occurs in \<open>b\<close> as a substring.\<close>

definition is_substring :: "pstr \<Rightarrow> pstr \<Rightarrow> bool" where
  "is_substring a b = list_ex (\<lambda>i. take (length a) (drop i b) = a) [0 ..< Suc (length b)]"

text \<open>
  What \<open>json.load\<close> reads back from the text \<open>json.dump\<close> writes for a string. Every
  code point outside ASCII is written as an escape, and the reader joins the escape of a
  high surrogate (U+D800 to U+DBFF) followed by that of a low one (U+DC00 to U+DFFF) into
  one code point, also when the string held the two as separate code points.
\<close>

fun join_surrogates :: "pstr \<Rightarrow> pstr" where
  "join_surrogates (hi # lo # s) =
     (if 55296 \<le> hi \<and> hi \<le> 56319 \<and> 56320 \<le> lo \<and> lo \<le> 57343
      then (65536 + (hi - 55296) * 1024 + (lo - 56320)) # join_surrogates s
      else hi # join_surrogates (lo # s))"
| "join_surrogates s = s"

subsection \<open>Dictionaries\<close>

text \<open>\<open>d.get(k, dflt)\<close>, \<open>k in d\<close>, \<open>d[k] = v\<close> and \<open>del d[k]\<close>.\<close>

definition dict_get :: "(pstr \<times> pyval) list \<Rightarrow> pstr \<Rightarrow> pyval \<Rightarrow> pyval" where
  "dict_get d k dflt = (case map_of d k of Some v \<Rightarrow> v | None \<Rightarrow> dflt)"

definition dict_has :: "(pstr \<times> pyval) list \<Rightarrow> pstr \<Rightarrow> bool" where
  "dict_has d k = (map_of d k \<noteq> None)"

fun dict_set :: "(pstr \<times> pyval) list \<Rightarrow> pstr \<Rightarrow> pyval \<Rightarrow> (pstr \<times> pyval) list" where
  "dict_set [] k v = [(k, v)]"
| "dict_set ((k', v') # d) k v = (if k' = k then (k, v) # d else (k', v') # dict_set d k v)"

definition dict_del :: "(pstr \<times> pyval) list \<Rightarrow> pstr \<Rightarrow> (pstr \<times> pyval) list" where
  "dict_del d k = filter (\<lambda>kv. fst kv \<noteq> k) d"

text \<open>The dictionary built from pairs, one \<open>d[k] = v\<close> after the other.\<close>

definition dict_of_pairs :: "(pstr \<times> pyval) list \<Rightarrow> (pstr \<times> pyval) list" where
  "dict_of_pairs kvs = fold (\<lambda>kv d. dict_set d (fst kv) (snd kv)) kvs []"

section \<open>The inventory\<close>

text \<open>
  One constructor for each message the source formats, with the values it interpolates.
  The timestamp that \<open>_log\<close> puts before the message and the copy it prints are left
  out, and the write to the console is taken not to fail. \<open>print_data\<close>, which only
  prints, is not modelled.
\<close>

datatype message =
    Invalid_item_name pyval
  | Invalid_quantity pyval
  | Added pyval pstr pyval
  | Not_found pstr
  | Out_of_stock pstr
  | Removed pyval pstr pyval
  | Low_stock "pstr list"
  | No_low_stock
  | Saved pstr
  | Error_saving exc
  | No_file
  | Loaded pstr
  | Error_loading exc
  | Error_occurred exc

text \<open>The fields of an \<open>Inventory\<close>; \<open>file_path\<close> is its field \<open>file\<close>.\<close>

record inventory =
  file_path :: pstr
  stock_data :: pyval
  logs :: "message list"

definition log :: "inventory \<Rightarrow> message \<Rightarrow> inventory" where
  "log self m = self\<lparr>logs := logs self @ [m]\<rparr>"

text \<open>
  A message is formatted before \<open>_log\<close> is called: when one of the values \<open>vs\<close> it
  interpolates has no text, the f-string raises \<open>ValueError\<close> and nothing is logged.
\<close>

definition log_formatted :: "inventory \<Rightarrow> pyval list \<Rightarrow> message \<Rightarrow> inventory outcome" where
  "log_formatted self vs m =
     (if list_all printable vs then Returns (log self m) else Raises ValueError self)"

text \<open>
  The validators log a rejection and return whether the argument is valid; the message
  of a rejection holds the \<open>repr\<close> of the argument.
\<close>

definition rejected :: "inventory outcome \<Rightarrow> (inventory \<times> bool) outcome" where
  "rejected r =
     (case r of
        Returns self1 \<Rightarrow> Returns (self1, False)
      | Raises e self1 \<Rightarrow> Raises e (self1, False)
      | Unmodelled \<Rightarrow> Unmodelled)"

definition validate_item :: "inventory \<Rightarrow> pyval \<Rightarrow> (inventory \<times> bool) outcome" where
  "validate_item self item =
     (case item of
        PStr s \<Rightarrow>
          if strip s = [] then rejected (log_formatted self [item] (Invalid_item_name item))
          else Returns (self, True)
      | _ \<Rightarrow> rejected (log_formatted self [item] (Invalid_item_name item)))"

definition validate_qty :: "inventory \<Rightarrow> pyval \<Rightarrow> (inventory \<times> bool) outcome" where
  "validate_qty self qty =
     (case int_of qty of
        Some q \<Rightarrow>
          if q \<le> 0 then rejected (log_formatted self [qty] (Invalid_quantity qty))
          else Returns (self, True)
      | None \<Rightarrow> rejected (log_formatted self [qty] (Invalid_quantity qty)))"

text \<open>
  \<open>_validate_item(item) and _validate_qty(qty)\<close>: the quantity is looked at only when
  the item is valid.
\<close>

definition validate :: "inventory \<Rightarrow> pyval \<Rightarrow> pyval \<Rightarrow> (inventory \<times> bool) outcome" where
  "validate self item qty =
     (case validate_item self item of
        Returns (self1, True) \<Rightarrow> validate_qty self1 qty
      | r \<Rightarrow> r)"

text \<open>The string of a valid item, the integer of a valid quantity.\<close>

fun str_of :: "pyval \<Rightarrow> pstr" where
  "str_of (PStr s) = s"
| "str_of _ = []"

definition num_of :: "pyval \<Rightarrow> int" where
  "num_of v = (case int_of v of Some n \<Rightarrow> n | None \<Rightarrow> 0)"

text \<open>
  \<open>add_item\<close> stores the new total and then formats its message, with the quantity
  and the total in it: a call whose message cannot be formatted raises after the stock
  has changed.
\<close>

definition add_item :: "inventory \<Rightarrow> pyval \<Rightarrow> pyval \<Rightarrow> inventory outcome" where
  "add_item self item qty =
     (case validate self item qty of
        Returns (self1, False) \<Rightarrow> Returns self1
      | Returns (self1, True) \<Rightarrow>
          (case stock_data self1 of
             PDict d \<Rightarrow>
               (case py_add (dict_get d (str_of item) (PInt 0)) (num_of qty) of
                  Val new_total \<Rightarrow>
                    log_formatted (self1\<lparr>stock_data := PDict (dict_set d (str_of item) new_total)\<rparr>)
                      [qty, new_total] (Added qty (str_of item) new_total)
                | Exc e \<Rightarrow> Raises e self1
                | Float_op \<Rightarrow> Unmodelled)
           | _ \<Rightarrow> Raises AttributeError self1)
      | Raises e (self1, valid) \<Rightarrow> Raises e self1
      | Unmodelled \<Rightarrow> Unmodelled)"

text \<open>
  \<open>item not in self.stock_data\<close>: a key test on a dictionary, an element test on a
  list, a substring test on a string; nothing else is a container.
\<close>

fun py_contains :: "pyval \<Rightarrow> pstr \<Rightarrow> bool eval" where
  "py_contains (PDict d) k = Val (dict_has d k)"
| "py_contains (PList xs) k = Val (PStr k \<in> set xs)"
| "py_contains (PStr s) k = Val (is_substring k s)"
| "py_contains _ k = Exc TypeError"

definition remove_item :: "inventory \<Rightarrow> pyval \<Rightarrow> pyval \<Rightarrow> inventory outcome" where
  "remove_item self item qty =
     (case validate self item qty of
        Returns (self1, False) \<Rightarrow> Returns self1
      | Returns (self1, True) \<Rightarrow>
          (case py_contains (stock_data self1) (str_of item) of
             Exc e \<Rightarrow> Raises e self1
           | Float_op \<Rightarrow> Unmodelled
           | Val False \<Rightarrow> Returns (log self1 (Not_found (str_of item)))
           | Val True \<Rightarrow>
               (case stock_data self1 of
                  PDict d \<Rightarrow>
                    (case py_sub (dict_get d (str_of item) PNone) (num_of qty) of
                       Exc e \<Rightarrow> Raises e self1
                     | Float_op \<Rightarrow> Unmodelled
                     | Val left \<Rightarrow>
                         (case py_le left 0 of
                            Exc e \<Rightarrow>
                              Raises e (self1\<lparr>stock_data := PDict (dict_set d (str_of item) left)\<rparr>)
                          | Float_op \<Rightarrow> Unmodelled
                          | Val True \<Rightarrow>
                              Returns (log (self1\<lparr>stock_data := PDict (dict_del d (str_of item))\<rparr>)
                                         (Out_of_stock (str_of item)))
                          | Val False \<Rightarrow>
                              log_formatted
                                (self1\<lparr>stock_data := PDict (dict_set d (str_of item) left)\<rparr>)
                                [qty, left] (Removed qty (str_of item) left)))
                | _ \<Rightarrow> Raises TypeError self1))
      | Raises e (self1, valid) \<Rightarrow> Raises e self1
      | Unmodelled \<Rightarrow> Unmodelled)"

definition get_qty :: "inventory \<Rightarrow> pstr \<Rightarrow> pyval eval" where
  "get_qty self item =
     (case stock_data self of
        PDict d \<Rightarrow> Val (dict_get d item (PInt 0))
      | _ \<Rightarrow> Exc AttributeError)"

text \<open>
  The comprehension of \<open>check_low_items\<close>: the items are visited in the dictionary's
  order, and the first comparison that raises ends it. When the method raises it returns
  no list; the outcome then carries the empty one.
\<close>

fun low_items :: "(pstr \<times> pyval) list \<Rightarrow> int \<Rightarrow> pstr list eval" where
  "low_items [] threshold = Val []"
| "low_items ((item, qty) # d) threshold =
     (case py_lt qty threshold of
        Exc e \<Rightarrow> Exc e
      | Float_op \<Rightarrow> Float_op
      | Val b \<Rightarrow>
          (case low_items d threshold of
             Val rest \<Rightarrow> Val (if b then item # rest else rest)
           | r \<Rightarrow> r))"

definition check_low_items :: "inventory \<Rightarrow> int \<Rightarrow> (inventory \<times> pstr list) outcome" where
  "check_low_items self threshold =
     (case stock_data self of
        PDict d \<Rightarrow>
          (case low_items d threshold of
             Exc e \<Rightarrow> Raises e (self, [])
           | Float_op \<Rightarrow> Unmodelled
           | Val low \<Rightarrow>
               Returns (if low \<noteq> [] then log self (Low_stock low) else log self No_low_stock, low))
      | _ \<Rightarrow> Raises AttributeError (self, []))"

definition default_threshold :: int where
  "default_threshold = 5"

section \<open>Persistence\<close>

text \<open>
  The file system. What a file holds is known by what reading it as UTF-8 and parsing it
  as JSON gives: \<open>Json_text v\<close> is a text that \<open>json.load\<close> parses to \<open>v\<close>,
  \<open>Not_json\<close> a text that is no JSON document, \<open>Not_utf8\<close> bytes that are no
  UTF-8 text. \<open>nodes\<close> tells what is at a path that can be reached. \<open>unreadable\<close>
  and \<open>unwritable\<close> are the paths the operating system refuses to open for reading and
  for writing (\<open>OSError\<close>), \<open>unstatable\<close> those on which \<open>Path.exists()\<close> raises
  \<open>OSError\<close> (a directory on the way that cannot be searched), and \<open>unencodable\<close>
  those that the platform cannot encode, beside the paths with a NUL in them: on both,
  \<open>open\<close> raises \<open>ValueError\<close> and \<open>Path.exists()\<close> is false.
\<close>

datatype content = Json_text pyval | Not_json | Not_utf8

datatype node = File content | Directory

record world =
  nodes :: "pstr \<Rightarrow> node option"
  unreadable :: "pstr \<Rightarrow> bool"
  unwritable :: "pstr \<Rightarrow> bool"
  unstatable :: "pstr \<Rightarrow> bool"
  unencodable :: "pstr \<Rightarrow> bool"

text \<open>A file system with no file in it, where nothing is refused.\<close>

definition empty_world :: world where
  "empty_world =
     \<lparr>nodes = (\<lambda>p. None), unreadable = (\<lambda>p. False), unwritable = (\<lambda>p. False),
      unstatable = (\<lambda>p. False), unencodable = (\<lambda>p. False)\<rparr>"

definition bad_path :: "world \<Rightarrow> pstr \<Rightarrow> bool" where
  "bad_path w p \<longleftrightarrow> 0 \<in> set p \<or> unencodable w p"

text \<open>\<open>self.file.exists()\<close>.\<close>

definition file_exists :: "world \<Rightarrow> pstr \<Rightarrow> bool eval" where
  "file_exists w p =
     (case nodes w p of
        Some n \<Rightarrow> Val True
      | None \<Rightarrow> if bad_path w p then Val False
                else if unstatable w p then Exc OSError
                else Val False)"

text \<open>
  \<open>json.dump\<close> and \<open>json.load\<close> belong to Python's library and are modelled by
  what they do to values. \<open>json.dump\<close> writes the value piece by piece, the items of
  a dictionary in the order of their keys, and raises at the first piece it cannot write:
  \<open>TypeError\<close> on an object of a type it does not know, \<open>ValueError\<close> on an
  integer that has no text.
\<close>

fun first_error :: "exc option list \<Rightarrow> exc option" where
  "first_error [] = None"
| "first_error (None # es) = first_error es"
| "first_error (Some e # es) = Some e"

fun dump_error :: "pyval \<Rightarrow> exc option" where
  "dump_error (PBytes b) = Some TypeError"
| "dump_error (PInt n) = (if int_fits n then None else Some ValueError)"
| "dump_error (PList xs) = first_error (map dump_error xs)"
| "dump_error (PDict d) =
     first_error (map snd (sort_key fst (map (\<lambda>kv. (fst kv, dump_error (snd kv))) d)))"
| "dump_error v = None"

text \<open>
  What \<open>json.load\<close> returns for the text that \<open>json.dump\<close> wrote with
  \<open>sort_keys=True\<close>: the same value, with the strings as they are read back and
  every dictionary built anew from its items taken in the order of their keys.
\<close>

fun reparsed :: "pyval \<Rightarrow> pyval" where
  "reparsed (PStr s) = PStr (join_surrogates s)"
| "reparsed (PList xs) = PList (map reparsed xs)"
| "reparsed (PDict d) =
     PDict (dict_of_pairs
              (map (\<lambda>kv. (join_surrogates (fst kv), snd kv))
                 (sort_key fst (map (\<lambda>kv. (fst kv, reparsed (snd kv))) d))))"
| "reparsed v = v"

text \<open>\<open>except (OSError, json.JSONDecodeError)\<close>, the handler of both methods.\<close>

definition handled :: "exc \<Rightarrow> bool" where
  "handled e \<longleftrightarrow> e = OSError \<or> e = JSONDecodeError"

text \<open>
  The body of the \<open>try\<close> in \<open>save_data\<close>. \<open>open\<close> raises before it touches the
  file system or empties the file; a dump that raises leaves an unfinished text behind.
\<close>

definition write_json :: "world \<Rightarrow> pstr \<Rightarrow> pyval \<Rightarrow> world outcome" where
  "write_json w p v =
     (if bad_path w p then Raises ValueError w
      else if nodes w p = Some Directory \<or> unwritable w p then Raises OSError w
      else (case dump_error v of
              None \<Rightarrow> Returns (w\<lparr>nodes := (nodes w)(p \<mapsto> File (Json_text (reparsed v)))\<rparr>)
            | Some e \<Rightarrow> Raises e (w\<lparr>nodes := (nodes w)(p \<mapsto> File Not_json)\<rparr>)))"

definition save_data :: "world \<Rightarrow> inventory \<Rightarrow> (world \<times> inventory) outcome" where
  "save_data w self =
     (case write_json w (file_path self) (stock_data self) of
        Returns w' \<Rightarrow> Returns (w', log self (Saved (file_path self)))
      | Raises e w' \<Rightarrow>
          if handled e then Returns (w', log self (Error_saving e)) else Raises e (w', self)
      | Unmodelled \<Rightarrow> Unmodelled)"

text \<open>The body of the \<open>try\<close> in \<open>load_data\<close>.\<close>

definition read_json :: "world \<Rightarrow> pstr \<Rightarrow> pyval eval" where
  "read_json w p =
     (case nodes w p of
        None \<Rightarrow> Exc OSError
      | Some Directory \<Rightarrow> Exc OSError
      | Some (File c) \<Rightarrow>
          if unreadable w p then Exc OSError
          else (case c of
                  Json_text v \<Rightarrow> Val v
                | Not_json \<Rightarrow> Exc JSONDecodeError
                | Not_utf8 \<Rightarrow> Exc UnicodeDecodeError))"

text \<open>The test for the file stands before the \<open>try\<close>: what it raises is not handled.\<close>

definition load_data :: "world \<Rightarrow> inventory \<Rightarrow> inventory outcome" where
  "load_data w self =
     (case file_exists w (file_path self) of
        Exc e \<Rightarrow> Raises e self
      | Float_op \<Rightarrow> Unmodelled
      | Val False \<Rightarrow> Returns (log self No_file)
      | Val True \<Rightarrow>
          (case read_json w (file_path self) of
             Val v \<Rightarrow> Returns (log (self\<lparr>stock_data := v\<rparr>) (Loaded (file_path self)))
           | Exc e \<Rightarrow> if handled e then Returns (log self (Error_loading e)) else Raises e self
           | Float_op \<Rightarrow> Unmodelled))"

text \<open>\<open>__init__\<close>: a fresh instance loads its file.\<close>

definition default_file :: pstr where
  "default_file = pystr ''inventory.json''"

definition blank :: "pstr \<Rightarrow> inventory" where
  "blank f = \<lparr>file_path = f, stock_data = PDict [], logs = []\<rparr>"

definition init :: "world \<Rightarrow> pstr \<Rightarrow> inventory outcome" where
  "init w f = load_data w (blank f)"

section \<open>The context manager\<close>

definition enter :: "inventory \<Rightarrow> inventory" where
  "enter self = self"

text \<open>
  \<open>__exit__\<close> gets the exception that ended the block, if any, saves, and then logs
  the exception when the object is true (\<open>if exc_value:\<close>). It returns \<open>None\<close>.
\<close>

definition exit_ctx :: "world \<Rightarrow> inventory \<Rightarrow> exc option \<Rightarrow> (world \<times> inventory) outcome" where
  "exit_ctx w self exc_value =
     (case save_data w self of
        Returns (w', self') \<Rightarrow>
          (case exc_value of
             Some e \<Rightarrow>
               if is_true e then Returns (w', log self' (Error_occurred e)) else Returns (w', self')
           | None \<Rightarrow> Returns (w', self'))
      | r \<Rightarrow> r)"

text \<open>
  The \<open>with\<close> statement, as \<open>main\<close> uses it. The block runs on the object that
  \<open>__enter__\<close> returns. When the block raises, \<open>__exit__\<close> is called with the
  exception, and since what it returns is not true the exception is raised again; an
  exception of \<open>__exit__\<close> itself takes its place.
\<close>

definition with_inventory ::
  "world \<Rightarrow> inventory \<Rightarrow> (world \<times> inventory \<Rightarrow> (world \<times> inventory) outcome) \<Rightarrow>
   (world \<times> inventory) outcome" where
  "with_inventory w self block =
     (case block (w, enter self) of
        Returns (w1, self1) \<Rightarrow> exit_ctx w1 self1 None
      | Raises e (w1, self1) \<Rightarrow>
          (case exit_ctx w1 self1 (Some e) of
             Returns s \<Rightarrow> Raises e s
           | r \<Rightarrow> r)
      | Unmodelled \<Rightarrow> Unmodelled)"

section \<open>Sequences of calls\<close>

datatype call = Add_item pyval pyval | Remove_item pyval pyval

fun do_call :: "inventory \<Rightarrow> call \<Rightarrow> inventory outcome" where
  "do_call self (Add_item item qty) = add_item self item qty"
| "do_call self (Remove_item item qty) = remove_item self item qty"

text \<open>The calls run one after the other; a call that raises ends the run.\<close>

fun run :: "inventory \<Rightarrow> call list \<Rightarrow> inventory outcome" where
  "run self [] = Returns self"
| "run self (c # cs) =
     (case do_call self c of
        Returns self' \<Rightarrow> run self' cs
      | r \<Rightarrow> r)"

text \<open>
  The same calls made by a caller that catches what a call raises and goes on with the
  inventory as the call left it.
\<close>

fun run_catching :: "inventory \<Rightarrow> call list \<Rightarrow> inventory option" where
  "run_catching self [] = Some self"
| "run_catching self (c # cs) =
     (case do_call self c of
        Returns self' \<Rightarrow> run_catching self' cs
      | Raises e self' \<Rightarrow> run_catching self' cs
      | Unmodelled \<Rightarrow> None)"

text \<open>A block that makes the calls, and a block that raises at once.\<close>

definition calls_block :: "call list \<Rightarrow> world \<times> inventory \<Rightarrow> (world \<times> inventory) outcome" where
  "calls_block cs ws =
     (case run (snd ws) cs of
        Returns self1 \<Rightarrow> Returns (fst ws, self1)
      | Raises e self1 \<Rightarrow> Raises e (fst ws, self1)
      | Unmodelled \<Rightarrow> Unmodelled)"

definition raising_block :: "exc \<Rightarrow> world \<times> inventory \<Rightarrow> (world \<times> inventory) outcome" where
  "raising_block e ws = Raises e ws"

section \<open>The demo\<close>

text \<open>
  The block of \<open>main\<close>. What it prints (the apple stock, the report of
  \<open>print_data\<close>) goes to the console only.
\<close>

definition main_block :: "world \<times> inventory \<Rightarrow> (world \<times> inventory) outcome" where
  "main_block ws =
     (case run (snd ws)
             [Add_item (PStr (pystr ''apple'')) (PInt 10), Add_item (PStr (pystr ''banana'')) (PInt 5),
              Add_item (PStr (pystr ''pear'')) (PInt 2), Remove_item (PStr (pystr ''apple'')) (PInt 3),
              Remove_item (PStr (pystr ''orange'')) (PInt 1)] of
        Returns self1 \<Rightarrow>
          (case get_qty self1 (pystr ''apple'') of
             Val apple_stock \<Rightarrow>
               (case check_low_items self1 default_threshold of
                  Returns (self2, low) \<Rightarrow> Returns (fst ws, self2)
                | Raises e (self2, low) \<Rightarrow> Raises e (fst ws, self2)
                | Unmodelled \<Rightarrow> Unmodelled)
           | Exc e \<Rightarrow> Raises e (fst ws, self1)
           | Float_op \<Rightarrow> Unmodelled)
      | Raises e self1 \<Rightarrow> Raises e (fst ws, self1)
      | Unmodelled \<Rightarrow> Unmodelled)"

text \<open>
  \<open>with Inventory(f) as inv:\<close> followed by a block. An exception of the constructor
  is raised before the block is entered.
\<close>

definition with_new_inventory ::
  "world \<Rightarrow> pstr \<Rightarrow> (world \<times> inventory \<Rightarrow> (world \<times> inventory) outcome) \<Rightarrow>
   (world \<times> inventory) outcome" where
  "with_new_inventory w f block =
     (case init w f of
        Returns self \<Rightarrow> with_inventory w self block
      | Raises e self \<Rightarrow> Raises e (w, self)
      | Unmodelled \<Rightarrow> Unmodelled)"

definition main :: "world \<Rightarrow> (world \<times> inventory) outcome" where
  "main w = with_new_inventory w default_file main_block"

section \<open>The data model\<close>

text \<open>
  An item name is valid when something is left of it after trimming, a quantity when it
  is an integer above zero.
\<close>

definition is_valid_item :: "pyval \<Rightarrow> bool" where
  "is_valid_item item = (case item of PStr s \<Rightarrow> strip s \<noteq> [] | _ \<Rightarrow> False)"

definition is_valid_qty :: "pyval \<Rightarrow> bool" where
  "is_valid_qty qty = (case int_of qty of Some q \<Rightarrow> 0 < q | None \<Rightarrow> False)"


definition is_positive_stock :: "(pstr \<times> pyval) list \<Rightarrow> bool" where
  "is_positive_stock d \<longleftrightarrow>
     distinct (map fst d) \<and> list_all (\<lambda>kv. case snd kv of PInt n \<Rightarrow> 0 < n | _ \<Rightarrow> False) d"

definition is_json_stock :: "(pstr \<times> pyval) list \<Rightarrow> bool" where
  "is_json_stock d \<longleftrightarrow>
     distinct (map fst d) \<and>
     list_all (\<lambda>kv. join_surrogates (fst kv) = fst kv \<and>
                     (case snd kv of PInt n \<Rightarrow> int_fits n | _ \<Rightarrow> False)) d"

text \<open>
  What a call adds to a quantity at most, and whether its arguments have a text: while
  the sum of what was added has a text and the arguments have one, no message fails.
\<close>

fun call_amount :: "call \<Rightarrow> int" where
  "call_amount (Add_item item qty) =
     (if is_valid_item item \<and> is_valid_qty qty then num_of qty else 0)"
| "call_amount (Remove_item item qty) = 0"

fun call_printable :: "call \<Rightarrow> bool" where
  "call_printable (Add_item item qty) = (printable item \<and> printable qty)"
| "call_printable (Remove_item item qty) = (printable item \<and> printable qty)"

section \<open>Dictionaries and validation\<close>

lemma map_of_dict_set: "map_of (dict_set d k v) = (map_of d)(k \<mapsto> v)"
  by (induction d k v rule: dict_set.induct) auto

lemma map_of_dict_del: "map_of (dict_del d k) = (map_of d)(k := None)"
  by (induction d) (auto simp: dict_del_def)

lemma keys_dict_set: "fst ` set (dict_set d k v) = insert k (fst ` set d)"
  by (induction d k v rule: dict_set.induct) auto

lemma distinct_dict_set: "distinct (map fst d) \<Longrightarrow> distinct (map fst (dict_set d k v))"
  by (induction d k v rule: dict_set.induct) (auto simp: keys_dict_set)

lemma set_dict_set: "set (dict_set d k v) \<subseteq> insert (k, v) (set d)"
  by (induction d k v rule: dict_set.induct) auto

lemma distinct_dict_del: "distinct (map fst d) \<Longrightarrow> distinct (map fst (dict_del d k))"
  by (simp add: dict_del_def distinct_map_filter)

lemma set_dict_del: "set (dict_del d k) \<subseteq> set d"
  by (auto simp: dict_del_def)

lemma positive_stock_iff:
  "is_positive_stock d \<longleftrightarrow> distinct (map fst d) \<and> (\<forall>k v. (k, v) \<in> set d \<longrightarrow> (\<exists>n. v = PInt n \<and> 0 < n))"
proof -
  have "(case v of PInt n \<Rightarrow> 0 < n | _ \<Rightarrow> False) \<longleftrightarrow> (\<exists>n. v = PInt n \<and> 0 < n)" for v
    by (cases v) simp_all
  then show ?thesis
    by (simp add: is_positive_stock_def list_all_iff Ball_def)
qed

lemma positive_stock_lookup:
  "is_positive_stock d \<Longrightarrow> map_of d k = Some v \<Longrightarrow> \<exists>n. v = PInt n \<and> 0 < n"
  by (auto simp: positive_stock_iff dest: map_of_SomeD)

lemma positive_dict_set:
  assumes "is_positive_stock d" "0 < n"
  shows "is_positive_stock (dict_set d k (PInt n))"
  using assms set_dict_set[of d k "PInt n"]
  by (auto simp: positive_stock_iff distinct_dict_set)

lemma positive_dict_del:
  assumes "is_positive_stock d"
  shows "is_positive_stock (dict_del d k)"
  using assms set_dict_del[of d k]
  by (auto simp: positive_stock_iff distinct_dict_del)

lemma str_limit_ge: "10000 \<le> str_limit"
proof -
  have "4 \<le> max_str_digits" by (simp add: max_str_digits_def)
  then have "(10::int) ^ 4 \<le> 10 ^ max_str_digits" by (rule power_increasing) simp
  then show ?thesis by (simp add: str_limit_def)
qed

lemma int_fits_small: "\<bar>n\<bar> < 10000 \<Longrightarrow> int_fits n"
  using str_limit_ge by (simp add: int_fits_def)

lemma not_fits_limit: "\<not> int_fits str_limit" "\<not> int_fits (- str_limit)"
  using str_limit_ge by (simp_all add: int_fits_def)

lemma str_limit_pos: "0 < str_limit"
  using str_limit_ge by simp

lemma validate_cases:
  "validate self item qty =
     (if \<not> is_valid_item item
      then (if printable item then Returns (log self (Invalid_item_name item), False)
            else Raises ValueError (self, False))
      else if \<not> is_valid_qty qty
      then (if printable qty then Returns (log self (Invalid_quantity qty), False)
            else Raises ValueError (self, False))
      else Returns (self, True))"
  by (cases item; cases "int_of qty")
     (simp_all add: validate_def validate_item_def validate_qty_def is_valid_item_def
        is_valid_qty_def rejected_def log_formatted_def)

lemma stock_data_log [simp]: "stock_data (log self m) = stock_data self"
  by (simp add: log_def)

lemma add_item_positive:
  assumes "stock_data self = PDict d" "is_positive_stock d"
  shows "\<exists>self' d'. (add_item self item qty = Returns self' \<or>
                      add_item self item qty = Raises ValueError self') \<and>
           stock_data self' = PDict d' \<and> is_positive_stock d'"
proof (cases "is_valid_item item \<and> is_valid_qty qty")
  case False
  then show ?thesis using assms by (auto simp: add_item_def validate_cases)
next
  case True
  then obtain q where q: "int_of qty = Some q" "0 < q"
    by (auto simp: is_valid_qty_def split: option.splits)
  obtain n where n: "dict_get d (str_of item) (PInt 0) = PInt n" "0 \<le> n"
    using positive_stock_lookup[OF assms(2)]
    by (cases "map_of d (str_of item)") (fastforce simp: dict_get_def)+
  have "0 < n + q" using q n by simp
  then have p: "is_positive_stock (dict_set d (str_of item) (PInt (n + q)))"
    using assms(2) by (rule positive_dict_set[rotated])
  show ?thesis
    using True assms(1) q n p
    by (auto simp: add_item_def validate_cases num_of_def log_formatted_def)
qed

lemma remove_item_positive:
  assumes "stock_data self = PDict d" "is_positive_stock d"
  shows "\<exists>self' d'. (remove_item self item qty = Returns self' \<or>
                      remove_item self item qty = Raises ValueError self') \<and>
           stock_data self' = PDict d' \<and> is_positive_stock d'"
proof (cases "is_valid_item item \<and> is_valid_qty qty")
  case False
  then show ?thesis using assms by (auto simp: remove_item_def validate_cases)
next
  case True
  show ?thesis
  proof (cases "map_of d (str_of item)")
    case None
    then show ?thesis using True assms
      by (simp add: remove_item_def validate_cases dict_has_def)
  next
    case (Some v)
    then obtain n where n: "v = PInt n" "0 < n"
      using positive_stock_lookup[OF assms(2)] by blast
    show ?thesis
    proof (cases "n \<le> num_of qty")
      case le: True
      then show ?thesis using True assms Some n
        by (simp add: remove_item_def validate_cases dict_has_def dict_get_def positive_dict_del)
    next
      case gt: False
      then have "is_positive_stock (dict_set d (str_of item) (PInt (n - num_of qty)))"
        using assms(2) by (intro positive_dict_set) simp_all
      then show ?thesis using gt True assms(1) Some n
        by (auto simp: remove_item_def validate_cases dict_has_def dict_get_def log_formatted_def)
    qed
  qed
qed

lemma do_call_positive:
  assumes "stock_data self = PDict d" "is_positive_stock d"
  shows "\<exists>self' d'. (do_call self c = Returns self' \<or> do_call self c = Raises ValueError self') \<and>
           stock_data self' = PDict d' \<and> is_positive_stock d'"
proof (cases c)
  case (Add_item item qty)
  then show ?thesis using add_item_positive[OF assms, of item qty] by simp
next
  case (Remove_item item qty)
  then show ?thesis using remove_item_positive[OF assms, of item qty] by simp
qed

lemma run_positive:
  assumes "stock_data self = PDict d" "is_positive_stock d"
  shows "\<exists>self' d'. (run self calls = Returns self' \<or> run self calls = Raises ValueError self') \<and>
           stock_data self' = PDict d' \<and> is_positive_stock d'"
  using assms
proof (induction calls arbitrary: self d)
  case Nil
  then show ?case by simp
next
  case (Cons c cs)
  from do_call_positive[OF Cons.prems, of c]
  obtain self1 d1 where s1: "do_call self c = Returns self1 \<or> do_call self c = Raises ValueError self1"
    "stock_data self1 = PDict d1" "is_positive_stock d1" by blast
  from s1(1) show ?case
  proof
    assume "do_call self c = Returns self1"
    then show ?thesis using Cons.IH[OF s1(2,3)] by simp
  next
    assume "do_call self c = Raises ValueError self1"
    then show ?thesis using s1(2,3) by auto
  qed
qed

lemma run_catching_positive:
  assumes "stock_data self = PDict d" "is_positive_stock d"
  shows "\<exists>self' d'. run_catching self calls = Some self' \<and>
           stock_data self' = PDict d' \<and> is_positive_stock d'"
  using assms
proof (induction calls arbitrary: self d)
  case Nil
  then show ?case by simp
next
  case (Cons c cs)
  from do_call_positive[OF Cons.prems, of c]
  obtain self1 d1 where s1: "do_call self c = Returns self1 \<or> do_call self c = Raises ValueError self1"
    "stock_data self1 = PDict d1" "is_positive_stock d1" by blast
  from s1(1) Cons.IH[OF s1(2,3)] show ?case by auto
qed

lemma get_qty_absent:
  "stock_data self = PDict d \<Longrightarrow> k \<notin> fst ` set d \<Longrightarrow> get_qty self k = Val (PInt 0)"
  by (simp add: get_qty_def dict_get_def map_of_eq_None_iff[symmetric])

subsection \<open>Runs in which every message is formatted\<close>

lemma printable_int_of: "int_of qty = Some q \<Longrightarrow> printable qty = int_fits q"
  by (cases qty) (auto simp: int_fits_small)

lemma call_amount_nonneg: "0 \<le> call_amount c"
  by (cases c) (auto simp: is_valid_qty_def num_of_def split: option.splits)

lemma int_fits_between: "0 \<le> n \<Longrightarrow> n < str_limit \<Longrightarrow> int_fits n"
  by (simp add: int_fits_def)

lemma add_item_returns:
  assumes "stock_data self = PDict d" "is_positive_stock d"
    "\<forall>k n. (k, PInt n) \<in> set d \<longrightarrow> n \<le> M" "0 \<le> M"
    "printable item" "printable qty" "M + call_amount (Add_item item qty) < str_limit"
  shows "\<exists>self' d'. add_item self item qty = Returns self' \<and> stock_data self' = PDict d' \<and>
           is_positive_stock d' \<and>
           (\<forall>k n. (k, PInt n) \<in> set d' \<longrightarrow> n \<le> M + call_amount (Add_item item qty))"
proof (cases "is_valid_item item \<and> is_valid_qty qty")
  case False
  then show ?thesis using assms by (auto simp: add_item_def validate_cases)
next
  case True
  then obtain q where q: "int_of qty = Some q" "0 < q"
    by (auto simp: is_valid_qty_def split: option.splits)
  have am: "call_amount (Add_item item qty) = q" using True q by (simp add: num_of_def)
  obtain n where n: "dict_get d (str_of item) (PInt 0) = PInt n" "0 \<le> n" "n \<le> M"
  proof (cases "map_of d (str_of item)")
    case None
    then show ?thesis using that[of 0] assms(4) by (simp add: dict_get_def)
  next
    case (Some v)
    then obtain m where "v = PInt m" "0 < m" using positive_stock_lookup[OF assms(2)] by blast
    moreover have "(str_of item, v) \<in> set d" using Some by (rule map_of_SomeD)
    ultimately show ?thesis using that[of m] Some assms(3) by (auto simp: dict_get_def)
  qed
  have pos: "0 < n + q" using q n by simp
  have p: "is_positive_stock (dict_set d (str_of item) (PInt (n + q)))"
    using assms(2) pos by (rule positive_dict_set)
  have fq: "int_fits q" using assms(6) printable_int_of[OF q(1)] by simp
  have ft: "int_fits (n + q)" using pos n assms(7) am by (intro int_fits_between) simp_all
  have b: "m \<le> M + q" if "(k, PInt m) \<in> set (dict_set d (str_of item) (PInt (n + q)))" for k m
  proof -
    from that set_dict_set[of d "str_of item" "PInt (n + q)"]
    have "m = n + q \<or> (k, PInt m) \<in> set d" by blast
    then show ?thesis
    proof
      assume "m = n + q"
      then show ?thesis using n by simp
    next
      assume "(k, PInt m) \<in> set d"
      then have "m \<le> M" using assms(3) by blast
      then show ?thesis using q by simp
    qed
  qed
  show ?thesis
    using True assms(1) q n p fq ft b printable_int_of[OF q(1)] am
    by (auto simp: add_item_def validate_cases num_of_def log_formatted_def)
qed

lemma remove_item_returns:
  assumes "stock_data self = PDict d" "is_positive_stock d"
    "\<forall>k n. (k, PInt n) \<in> set d \<longrightarrow> n \<le> M" "M < str_limit"
    "printable item" "printable qty"
  shows "\<exists>self' d'. remove_item self item qty = Returns self' \<and> stock_data self' = PDict d' \<and>
           is_positive_stock d' \<and> (\<forall>k n. (k, PInt n) \<in> set d' \<longrightarrow> n \<le> M)"
proof (cases "is_valid_item item \<and> is_valid_qty qty")
  case False
  then show ?thesis using assms by (auto simp: remove_item_def validate_cases)
next
  case True
  then obtain q where q: "int_of qty = Some q" "0 < q"
    by (auto simp: is_valid_qty_def split: option.splits)
  show ?thesis
  proof (cases "map_of d (str_of item)")
    case None
    then show ?thesis using True assms
      by (simp add: remove_item_def validate_cases dict_has_def)
  next
    case (Some v)
    then obtain n where n: "v = PInt n" "0 < n"
      using positive_stock_lookup[OF assms(2)] by blast
    have "(str_of item, v) \<in> set d" using Some by (rule map_of_SomeD)
    then have nM: "n \<le> M" using n assms(3) by auto
    show ?thesis
    proof (cases "n \<le> q")
      case le: True
      have "\<forall>k m. (k, PInt m) \<in> set (dict_del d (str_of item)) \<longrightarrow> m \<le> M"
        using set_dict_del[of d "str_of item"] assms(3) by blast
      then show ?thesis using le True assms(1,2) Some n q
        by (simp add: remove_item_def validate_cases dict_has_def dict_get_def num_of_def
            positive_dict_del)
    next
      case gt: False
      have p: "is_positive_stock (dict_set d (str_of item) (PInt (n - q)))"
        using assms(2) gt by (intro positive_dict_set) simp_all
      have fq: "int_fits q" using assms(6) printable_int_of[OF q(1)] by simp
      have ft: "int_fits (n - q)" using gt q nM assms(4) by (intro int_fits_between) simp_all
      have b: "m \<le> M" if "(k, PInt m) \<in> set (dict_set d (str_of item) (PInt (n - q)))" for k m
      proof -
        from that set_dict_set[of d "str_of item" "PInt (n - q)"]
        have "m = n - q \<or> (k, PInt m) \<in> set d" by blast
        then show ?thesis
        proof
          assume "m = n - q"
          then show ?thesis using nM q by simp
        next
          assume "(k, PInt m) \<in> set d"
          then show ?thesis using assms(3) by blast
        qed
      qed
      show ?thesis using gt True assms(1) Some n q p fq ft b printable_int_of[OF q(1)]
        by (auto simp: remove_item_def validate_cases dict_has_def dict_get_def num_of_def
            log_formatted_def)
    qed
  qed
qed

lemma run_returns:
  assumes "stock_data self = PDict d" "is_positive_stock d"
    "\<forall>k n. (k, PInt n) \<in> set d \<longrightarrow> n \<le> M" "0 \<le> M"
    "list_all call_printable calls" "M + sum_list (map call_amount calls) < str_limit"
  shows "\<exists>self'. run self calls = Returns self'"
  using assms
proof (induction calls arbitrary: self d M)
  case Nil
  then show ?case by simp
next
  case (Cons c cs)
  have rest: "0 \<le> sum_list (map call_amount cs)"
    by (rule sum_list_nonneg) (auto simp: call_amount_nonneg)
  have one: "M + call_amount c < str_limit" "M < str_limit"
    using Cons.prems(6) rest call_amount_nonneg[of c] by simp_all
  have "\<exists>self1 d1. do_call self c = Returns self1 \<and> stock_data self1 = PDict d1 \<and>
          is_positive_stock d1 \<and> (\<forall>k n. (k, PInt n) \<in> set d1 \<longrightarrow> n \<le> M + call_amount c)"
  proof (cases c)
    case (Add_item item qty)
    then show ?thesis
      using add_item_returns[OF Cons.prems(1-4), of item qty] Cons.prems(5) one by simp
  next
    case (Remove_item item qty)
    then show ?thesis
      using remove_item_returns[OF Cons.prems(1-3) one(2), of item qty] Cons.prems(5) by simp
  qed
  then obtain self1 d1 where s: "do_call self c = Returns self1" "stock_data self1 = PDict d1"
    "is_positive_stock d1" "\<forall>k n. (k, PInt n) \<in> set d1 \<longrightarrow> n \<le> M + call_amount c"
    by blast
  have "\<exists>self'. run self1 cs = Returns self'"
    using Cons.prems(4,5,6) call_amount_nonneg[of c]
    by (intro Cons.IH[OF s(2,3,4)]) (simp_all add: add.assoc)
  then show ?case using s(1) by simp
qed

section \<open>The stock stays positive\<close>

text \<open>
  C1. Whatever calls of \<open>add_item\<close> and \<open>remove_item\<close> are made on an empty stock,
  with whatever arguments, the stock that each call leaves is a dictionary in which every
  key maps to an integer above zero, and \<open>get_qty\<close> of a key that is not in it is 0.
  Every call returns, unless its message holds an integer too long for a text: then it
  raises \<open>ValueError\<close>, which takes an argument that has no text or quantities that
  add up to \<open>10 ^ 4300\<close> or more. The invariant holds for a run that the first
  exception ends, whose last state is the one the raising call left, and for a caller
  that catches the exceptions and goes on. Every prefix of a sequence of calls is such a
  sequence, so it holds after each call.
\<close>

theorem stock_stays_positive:
  "stock_data self = PDict [] \<Longrightarrow>
     (\<exists>self' d.
        (run self calls = Returns self' \<or>
         run self calls = Raises ValueError self' \<and>
           \<not> (list_all call_printable calls \<and> sum_list (map call_amount calls) < str_limit)) \<and>
        stock_data self' = PDict d \<and> distinct (map fst d) \<and>
        (\<forall>k v. (k, v) \<in> set d \<longrightarrow> (\<exists>n. v = PInt n \<and> 0 < n)) \<and>
        (\<forall>k. k \<notin> fst ` set d \<longrightarrow> get_qty self' k = Val (PInt 0))) \<and>
     (\<exists>self' d. run_catching self calls = Some self' \<and>
        stock_data self' = PDict d \<and> distinct (map fst d) \<and>
        (\<forall>k v. (k, v) \<in> set d \<longrightarrow> (\<exists>n. v = PInt n \<and> 0 < n)) \<and>
        (\<forall>k. k \<notin> fst ` set d \<longrightarrow> get_qty self' k = Val (PInt 0)))"
proof -
  assume a: "stock_data self = PDict []"
  have e: "is_positive_stock []" by (simp add: is_positive_stock_def)
  from run_positive[OF a e, of calls]
  obtain s1 d1 where r: "run self calls = Returns s1 \<or> run self calls = Raises ValueError s1"
    "stock_data s1 = PDict d1" "is_positive_stock d1" by blast
  from run_catching_positive[OF a e, of calls]
  obtain s2 d2 where c: "run_catching self calls = Some s2"
    "stock_data s2 = PDict d2" "is_positive_stock d2" by blast
  have fits: "\<exists>self'. run self calls = Returns self'"
    if "list_all call_printable calls \<and> sum_list (map call_amount calls) < str_limit"
    using that run_returns[OF a e, of 0 calls] by simp
  have r': "run self calls = Returns s1 \<or>
      run self calls = Raises ValueError s1 \<and>
        \<not> (list_all call_printable calls \<and> sum_list (map call_amount calls) < str_limit)"
    using r(1) fits by auto
  have "\<exists>self' d.
        (run self calls = Returns self' \<or>
         run self calls = Raises ValueError self' \<and>
           \<not> (list_all call_printable calls \<and> sum_list (map call_amount calls) < str_limit)) \<and>
        stock_data self' = PDict d \<and> distinct (map fst d) \<and>
        (\<forall>k v. (k, v) \<in> set d \<longrightarrow> (\<exists>n. v = PInt n \<and> 0 < n)) \<and>
        (\<forall>k. k \<notin> fst ` set d \<longrightarrow> get_qty self' k = Val (PInt 0))"
    using r' r(2,3) get_qty_absent[OF r(2)] by (auto simp: positive_stock_iff)
  moreover have "\<exists>self' d. run_catching self calls = Some self' \<and>
        stock_data self' = PDict d \<and> distinct (map fst d) \<and>
        (\<forall>k v. (k, v) \<in> set d \<longrightarrow> (\<exists>n. v = PInt n \<and> 0 < n)) \<and>
        (\<forall>k. k \<notin> fst ` set d \<longrightarrow> get_qty self' k = Val (PInt 0))"
    using c get_qty_absent[OF c(2)] by (auto simp: positive_stock_iff)
  ultimately show ?thesis by blast
qed

theorem stock_stays_positive_witness:
  "stock_data (blank default_file) = PDict [] \<and>
   (\<exists>self' d.
      run_catching (blank default_file)
        [Add_item (PStr (pystr ''apple'')) (PInt 5), Remove_item (PStr (pystr ''apple'')) (PInt 5),
         Add_item (PStr (pystr ''pear'')) (PInt 2), Remove_item (PStr (pystr ''pear'')) (PInt 1),
         Add_item (PStr []) (PInt 4), Remove_item (PStr (pystr ''kiwi'')) PFloat,
         Add_item (PStr (pystr ''fig'')) (PInt str_limit)] = Some self' \<and>
      stock_data self' = PDict d \<and> distinct (map fst d) \<and>
      (\<forall>k v. (k, v) \<in> set d \<longrightarrow> (\<exists>n. v = PInt n \<and> 0 < n)) \<and>
      (\<forall>k. k \<notin> fst ` set d \<longrightarrow> get_qty self' k = Val (PInt 0)))"
  using stock_stays_positive [of "blank default_file"
      "[Add_item (PStr (pystr ''apple'')) (PInt 5), Remove_item (PStr (pystr ''apple'')) (PInt 5),
        Add_item (PStr (pystr ''pear'')) (PInt 2), Remove_item (PStr (pystr ''pear'')) (PInt 1),
        Add_item (PStr []) (PInt 4), Remove_item (PStr (pystr ''kiwi'')) PFloat,
        Add_item (PStr (pystr ''fig'')) (PInt str_limit)]"]
  by (simp add: blank_def)

lemma run_example:
  "run (blank default_file)
     [Add_item (PStr (pystr ''apple'')) (PInt 5), Remove_item (PStr (pystr ''apple'')) (PInt 5),
      Add_item (PStr (pystr ''pear'')) (PInt 2), Remove_item (PStr (pystr ''pear'')) (PInt 1),
      Add_item (PStr []) (PInt 4), Remove_item (PStr (pystr ''kiwi'')) PFloat,
      Add_item (PStr (pystr ''fig'')) (PInt str_limit)] =
   Raises ValueError
     \<lparr>file_path = default_file,
      stock_data = PDict [(pystr ''pear'', PInt 1), (pystr ''fig'', PInt str_limit)],
      logs = [Added (PInt 5) (pystr ''apple'') (PInt 5), Out_of_stock (pystr ''apple''),
              Added (PInt 2) (pystr ''pear'') (PInt 2), Removed (PInt 1) (pystr ''pear'') (PInt 1),
              Invalid_item_name (PStr []), Invalid_quantity PFloat]\<rparr>"
  using str_limit_pos not_fits_limit
  by (simp add: blank_def add_item_def remove_item_def validate_def rejected_def
      validate_item_def validate_qty_def strip_def is_space_def pystr_def num_of_def
      dict_get_def dict_has_def dict_del_def log_def log_formatted_def int_fits_small)

section \<open>Single calls\<close>

lemma get_qty_log [simp]: "get_qty (log self m) k = get_qty self k"
  by (simp add: get_qty_def)


lemma dict_get_dict_del:
  "dict_get (dict_del d k) k' dflt = (if k' = k then dflt else dict_get d k' dflt)"
  by (simp add: dict_get_def map_of_dict_del)

lemma add_item_valid:
  assumes "strip s \<noteq> []" "int_of qty = Some q" "0 < q" "get_qty self s = Val (PInt prev)"
  shows "\<exists>d. stock_data self = PDict d \<and>
           add_item self (PStr s) qty =
             (if int_fits q \<and> int_fits (prev + q)
              then Returns (log (self\<lparr>stock_data := PDict (dict_set d s (PInt (prev + q)))\<rparr>)
                              (Added qty s (PInt (prev + q))))
              else Raises ValueError (self\<lparr>stock_data := PDict (dict_set d s (PInt (prev + q)))\<rparr>))"
proof -
  from assms(4) obtain d where d: "stock_data self = PDict d" "dict_get d s (PInt 0) = PInt prev"
    by (auto simp: get_qty_def split: pyval.splits)
  have v: "is_valid_item (PStr s)" "is_valid_qty qty"
    using assms by (simp_all add: is_valid_item_def is_valid_qty_def)
  show ?thesis using d v assms(2) printable_int_of[OF assms(2)]
    by (simp add: add_item_def validate_cases num_of_def log_formatted_def)
qed

lemma add_item_small:
  assumes "strip s \<noteq> []" "0 < q" "q < 5000" "get_qty self s = Val (PInt prev)" "\<bar>prev\<bar> < 5000"
  shows "\<exists>d. stock_data self = PDict d \<and>
           add_item self (PStr s) (PInt q) =
             Returns (log (self\<lparr>stock_data := PDict (dict_set d s (PInt (prev + q)))\<rparr>)
                        (Added (PInt q) s (PInt (prev + q))))"
proof -
  have "int_fits q" "int_fits (prev + q)" using assms by (simp_all add: int_fits_small)
  then show ?thesis using add_item_valid[OF assms(1) _ assms(2,4), of "PInt q"] by simp
qed

section \<open>Adding\<close>



section \<open>Rejected calls\<close>

lemma rejected_calls_log:
  "(\<not> is_valid_item item \<and> printable item \<longrightarrow>
      add_item self item qty = Returns (self\<lparr>logs := logs self @ [Invalid_item_name item]\<rparr>) \<and>
      remove_item self item qty = Returns (self\<lparr>logs := logs self @ [Invalid_item_name item]\<rparr>)) \<and>
   (is_valid_item item \<and> \<not> is_valid_qty qty \<and> printable qty \<longrightarrow>
      add_item self item qty = Returns (self\<lparr>logs := logs self @ [Invalid_quantity qty]\<rparr>) \<and>
      remove_item self item qty = Returns (self\<lparr>logs := logs self @ [Invalid_quantity qty]\<rparr>)) \<and>
   (is_valid_item item \<and> is_valid_qty qty \<and> stock_data self = PDict d \<and>
    str_of item \<notin> fst ` set d \<longrightarrow>
      remove_item self item qty = Returns (self\<lparr>logs := logs self @ [Not_found (str_of item)]\<rparr>))"
proof (intro conjI impI)
  assume "\<not> is_valid_item item \<and> printable item"
  then show "add_item self item qty = Returns (self\<lparr>logs := logs self @ [Invalid_item_name item]\<rparr>)"
    and "remove_item self item qty = Returns (self\<lparr>logs := logs self @ [Invalid_item_name item]\<rparr>)"
    by (simp_all add: add_item_def remove_item_def validate_cases log_def)
next
  assume "is_valid_item item \<and> \<not> is_valid_qty qty \<and> printable qty"
  then show "add_item self item qty = Returns (self\<lparr>logs := logs self @ [Invalid_quantity qty]\<rparr>)"
    and "remove_item self item qty = Returns (self\<lparr>logs := logs self @ [Invalid_quantity qty]\<rparr>)"
    by (simp_all add: add_item_def remove_item_def validate_cases log_def)
next
  assume a: "is_valid_item item \<and> is_valid_qty qty \<and> stock_data self = PDict d \<and>
    str_of item \<notin> fst ` set d"
  then have "map_of d (str_of item) = None" by (simp add: map_of_eq_None_iff)
  with a show "remove_item self item qty =
      Returns (self\<lparr>logs := logs self @ [Not_found (str_of item)]\<rparr>)"
    by (simp add: remove_item_def validate_cases dict_has_def log_def)
qed

lemma rejected_calls_raise:
  "(\<not> is_valid_item item \<and> \<not> printable item \<longrightarrow>
      add_item self item qty = Raises ValueError self \<and>
      remove_item self item qty = Raises ValueError self) \<and>
   (is_valid_item item \<and> \<not> is_valid_qty qty \<and> \<not> printable qty \<longrightarrow>
      add_item self item qty = Raises ValueError self \<and>
      remove_item self item qty = Raises ValueError self)"
  by (simp add: add_item_def remove_item_def validate_cases)

text \<open>
  C3. A rejected call does not always return. The message of a rejection holds the
  \<open>repr\<close> of the rejected argument, and \<open>repr\<close> raises \<open>ValueError\<close> on an
  integer of more than 4300 digits: \<open>remove_item\<close> and \<open>add_item\<close> with the
  quantity \<open>-10 ^ 4300\<close>, and \<open>add_item\<close> with the item \<open>10 ^ 4300\<close>, raise to the
  caller and log nothing. When the rejected argument has a text the call returns with
  one more log entry and nothing else changed (\<open>rejected_calls_log\<close>).
\<close>

theorem rejected_call_raises:
  "remove_item (blank default_file) (PStr (pystr ''x'')) (PInt (- str_limit)) =
     Raises ValueError (blank default_file) \<and>
   add_item (blank default_file) (PStr (pystr ''x'')) (PInt (- str_limit)) =
     Raises ValueError (blank default_file) \<and>
   add_item (blank default_file) (PInt str_limit) (PInt 1) =
     Raises ValueError (blank default_file)"
proof -
  have v: "is_valid_item (PStr (pystr ''x''))" "\<not> is_valid_qty (PInt (- str_limit))"
    "\<not> is_valid_item (PInt str_limit)"
    using str_limit_pos
    by (simp_all add: is_valid_item_def is_valid_qty_def strip_def is_space_def pystr_def)
  have p: "\<not> printable (PInt (- str_limit))" "\<not> printable (PInt str_limit)"
    using not_fits_limit by simp_all
  show ?thesis using v p by (simp add: add_item_def remove_item_def validate_cases)
qed

section \<open>Removing\<close>


lemma remove_item_present:
  assumes "strip s \<noteq> []" "int_of qty = Some q" "0 < q" "stock_data self = PDict d"
    "map_of d s = Some (PInt n)"
  shows "remove_item self (PStr s) qty =
           (if n - q \<le> 0
            then Returns (log (self\<lparr>stock_data := PDict (dict_del d s)\<rparr>) (Out_of_stock s))
            else if int_fits q \<and> int_fits (n - q)
            then Returns (log (self\<lparr>stock_data := PDict (dict_set d s (PInt (n - q)))\<rparr>)
                            (Removed qty s (PInt (n - q))))
            else Raises ValueError (self\<lparr>stock_data := PDict (dict_set d s (PInt (n - q)))\<rparr>))"
proof -
  have v: "is_valid_item (PStr s)" "is_valid_qty qty"
    using assms by (simp_all add: is_valid_item_def is_valid_qty_def)
  show ?thesis using v assms printable_int_of[OF assms(2)]
    by (cases "n \<le> q")
       (simp_all add: remove_item_def validate_cases num_of_def dict_has_def dict_get_def
          log_formatted_def)
qed

text \<open>
  C4. For a valid item name \<open>s\<close> and a valid quantity \<open>q\<close>, on a stock that holds the
  integer \<open>n\<close> for \<open>s\<close>: when \<open>n - q\<close> is 0 or less, \<open>remove_item\<close> deletes the
  key, also when \<open>q\<close> is more than the stock held, and returns; otherwise it stores
  \<open>n - q\<close> for \<open>s\<close>, and returns with one entry logged when \<open>q\<close> and \<open>n - q\<close>
  have a text, or raises \<open>ValueError\<close> from formatting the entry, after the stock has
  changed. No other key changes. Adding 5 of an item that was not in stock and removing
  5 leaves a stock without the item, and its quantity 0.
\<close>

theorem remove_item_subtracts:
  "(strip s \<noteq> [] \<and> int_of qty = Some q \<and> 0 < q \<and> stock_data self = PDict d \<and>
    map_of d s = Some (PInt n) \<longrightarrow>
      (\<exists>self' d'. stock_data self' = PDict d' \<and>
         (if n - q \<le> 0
          then remove_item self (PStr s) qty = Returns self' \<and>
               map_of d' = (map_of d)(s := None) \<and> logs self' = logs self @ [Out_of_stock s]
          else map_of d' = (map_of d)(s \<mapsto> PInt (n - q)) \<and>
               (remove_item self (PStr s) qty = Returns self' \<and>
                  logs self' = logs self @ [Removed qty s (PInt (n - q))] \<and>
                  int_fits q \<and> int_fits (n - q) \<or>
                remove_item self (PStr s) qty = Raises ValueError self' \<and>
                  logs self' = logs self \<and> \<not> (int_fits q \<and> int_fits (n - q)))) \<and>
         file_path self' = file_path self)) \<and>
   (get_qty self0 (pystr ''apple'') = Val (PInt 0) \<longrightarrow>
      (\<exists>self1 self2 d2.
         add_item self0 (PStr (pystr ''apple'')) (PInt 5) = Returns self1 \<and>
         remove_item self1 (PStr (pystr ''apple'')) (PInt 5) = Returns self2 \<and>
         get_qty self2 (pystr ''apple'') = Val (PInt 0) \<and>
         stock_data self2 = PDict d2 \<and> pystr ''apple'' \<notin> fst ` set d2))"
proof (intro conjI impI)
  assume a: "strip s \<noteq> [] \<and> int_of qty = Some q \<and> 0 < q \<and> stock_data self = PDict d \<and>
    map_of d s = Some (PInt n)"
  then have r: "remove_item self (PStr s) qty =
           (if n - q \<le> 0
            then Returns (log (self\<lparr>stock_data := PDict (dict_del d s)\<rparr>) (Out_of_stock s))
            else if int_fits q \<and> int_fits (n - q)
            then Returns (log (self\<lparr>stock_data := PDict (dict_set d s (PInt (n - q)))\<rparr>)
                            (Removed qty s (PInt (n - q))))
            else Raises ValueError (self\<lparr>stock_data := PDict (dict_set d s (PInt (n - q)))\<rparr>))"
    using remove_item_present by blast
  let ?goal = "\<lambda>self' d'. stock_data self' = PDict d' \<and>
         (if n - q \<le> 0
          then remove_item self (PStr s) qty = Returns self' \<and>
               map_of d' = (map_of d)(s := None) \<and> logs self' = logs self @ [Out_of_stock s]
          else map_of d' = (map_of d)(s \<mapsto> PInt (n - q)) \<and>
               (remove_item self (PStr s) qty = Returns self' \<and>
                  logs self' = logs self @ [Removed qty s (PInt (n - q))] \<and>
                  int_fits q \<and> int_fits (n - q) \<or>
                remove_item self (PStr s) qty = Raises ValueError self' \<and>
                  logs self' = logs self \<and> \<not> (int_fits q \<and> int_fits (n - q)))) \<and>
         file_path self' = file_path self"
  consider (gone) "n - q \<le> 0"
    | (left) "\<not> n - q \<le> 0" "int_fits q \<and> int_fits (n - q)"
    | (long) "\<not> n - q \<le> 0" "\<not> (int_fits q \<and> int_fits (n - q))"
    by blast
  then have "\<exists>self' d'. ?goal self' d'"
  proof cases
    case gone
    then have "?goal (log (self\<lparr>stock_data := PDict (dict_del d s)\<rparr>) (Out_of_stock s)) (dict_del d s)"
      using r by (simp add: log_def map_of_dict_del)
    then show ?thesis by blast
  next
    case left
    then have "?goal (log (self\<lparr>stock_data := PDict (dict_set d s (PInt (n - q)))\<rparr>)
                            (Removed qty s (PInt (n - q)))) (dict_set d s (PInt (n - q)))"
      using r by (simp add: log_def map_of_dict_set)
    then show ?thesis by blast
  next
    case long
    then have "?goal (self\<lparr>stock_data := PDict (dict_set d s (PInt (n - q)))\<rparr>)
                 (dict_set d s (PInt (n - q)))"
      using r by (simp add: map_of_dict_set)
    then show ?thesis by blast
  qed
  then show "\<exists>self' d'. stock_data self' = PDict d' \<and>
         (if n - q \<le> 0
          then remove_item self (PStr s) qty = Returns self' \<and>
               map_of d' = (map_of d)(s := None) \<and> logs self' = logs self @ [Out_of_stock s]
          else map_of d' = (map_of d)(s \<mapsto> PInt (n - q)) \<and>
               (remove_item self (PStr s) qty = Returns self' \<and>
                  logs self' = logs self @ [Removed qty s (PInt (n - q))] \<and>
                  int_fits q \<and> int_fits (n - q) \<or>
                remove_item self (PStr s) qty = Raises ValueError self' \<and>
                  logs self' = logs self \<and> \<not> (int_fits q \<and> int_fits (n - q)))) \<and>
         file_path self' = file_path self" .
next
  let ?a = "pystr ''apple''"
  assume a0: "get_qty self0 ?a = Val (PInt 0)"
  have sa: "strip ?a \<noteq> []" by (simp add: pystr_def strip_def is_space_def)
  obtain d where d: "stock_data self0 = PDict d"
    "add_item self0 (PStr ?a) (PInt 5) =
       Returns (log (self0\<lparr>stock_data := PDict (dict_set d ?a (PInt (0 + 5)))\<rparr>)
                  (Added (PInt 5) ?a (PInt (0 + 5))))"
    using add_item_small[OF sa _ _ a0, of 5] by auto
  define self1 where "self1 = log (self0\<lparr>stock_data := PDict (dict_set d ?a (PInt 5))\<rparr>)
                  (Added (PInt 5) ?a (PInt 5))"
  have s1: "stock_data self1 = PDict (dict_set d ?a (PInt 5))"
    "map_of (dict_set d ?a (PInt 5)) ?a = Some (PInt 5)"
    by (simp_all add: self1_def map_of_dict_set)
  have r: "remove_item self1 (PStr ?a) (PInt 5) =
      Returns (log (self1\<lparr>stock_data := PDict (dict_del (dict_set d ?a (PInt 5)) ?a)\<rparr>)
                 (Out_of_stock ?a))"
    using remove_item_present[OF sa _ _ s1, of "PInt 5" 5] by simp
  have "?a \<notin> fst ` set (dict_del (dict_set d ?a (PInt 5)) ?a)"
    by (auto simp: dict_del_def)
  then show "\<exists>self1 self2 d2.
         add_item self0 (PStr ?a) (PInt 5) = Returns self1 \<and>
         remove_item self1 (PStr ?a) (PInt 5) = Returns self2 \<and>
         get_qty self2 ?a = Val (PInt 0) \<and>
         stock_data self2 = PDict d2 \<and> ?a \<notin> fst ` set d2"
    using d r by (simp add: self1_def get_qty_def dict_get_dict_del)
qed

theorem remove_item_subtracts_witness:
  "strip (pystr ''apple'') \<noteq> [] \<and> int_of (PInt 9) = Some 9 \<and> (0::int) < 9 \<and>
   stock_data \<lparr>file_path = default_file, stock_data = PDict [(pystr ''apple'', PInt 7)], logs = []\<rparr>
     = PDict [(pystr ''apple'', PInt 7)] \<and>
   map_of [(pystr ''apple'', PInt 7)] (pystr ''apple'') = Some (PInt 7) \<and>
   (\<exists>self' d'.
      remove_item \<lparr>file_path = default_file, stock_data = PDict [(pystr ''apple'', PInt 7)], logs = []\<rparr>
        (PStr (pystr ''apple'')) (PInt 9) = Returns self' \<and>
      stock_data self' = PDict d' \<and> map_of d' (pystr ''apple'') = None \<and>
      logs self' = [Out_of_stock (pystr ''apple'')])"
proof -
  let ?self = "\<lparr>file_path = default_file, stock_data = PDict [(pystr ''apple'', PInt 7)], logs = []\<rparr>"
  have h: "strip (pystr ''apple'') \<noteq> [] \<and> int_of (PInt 9) = Some 9 \<and> (0::int) < 9 \<and>
      stock_data ?self = PDict [(pystr ''apple'', PInt 7)] \<and>
      map_of [(pystr ''apple'', PInt 7)] (pystr ''apple'') = Some (PInt 7)"
    by (simp add: pystr_def strip_def is_space_def)
  from remove_item_subtracts [of "pystr ''apple''" "PInt 9" 9 ?self "[(pystr ''apple'', PInt 7)]" 7 ?self,
      THEN conjunct1] h
  obtain self' d' where s: "stock_data self' = PDict d'"
    "if (7::int) - 9 \<le> 0
     then remove_item ?self (PStr (pystr ''apple'')) (PInt 9) = Returns self' \<and>
          map_of d' = (map_of [(pystr ''apple'', PInt 7)])(pystr ''apple'' := None) \<and>
          logs self' = logs ?self @ [Out_of_stock (pystr ''apple'')]
     else map_of d' = (map_of [(pystr ''apple'', PInt 7)])(pystr ''apple'' \<mapsto> PInt (7 - 9)) \<and>
          (remove_item ?self (PStr (pystr ''apple'')) (PInt 9) = Returns self' \<and>
             logs self' = logs ?self @ [Removed (PInt 9) (pystr ''apple'') (PInt (7 - 9))] \<and>
             int_fits 9 \<and> int_fits (7 - 9) \<or>
           remove_item ?self (PStr (pystr ''apple'')) (PInt 9) = Raises ValueError self' \<and>
             logs self' = logs ?self \<and> \<not> (int_fits 9 \<and> int_fits (7 - 9)))"
    by blast
  from s(2) have "remove_item ?self (PStr (pystr ''apple'')) (PInt 9) = Returns self'"
    "map_of d' (pystr ''apple'') = None" "logs self' = [Out_of_stock (pystr ''apple'')]"
    by simp_all
  with s(1) h show ?thesis by blast
qed

section \<open>Low stock\<close>




section \<open>Saving and loading\<close>

lemma distinct_keys_sort_key: "distinct (map fst (sort_key fst d)) = distinct (map fst d)"
  by (induction d) (simp_all add: distinct_insort_key)

lemma map_of_sort_key:
  assumes "distinct (map fst d)"
  shows "map_of (sort_key fst d) = map_of d"
  using assms by (simp add: map_of_inject_set distinct_keys_sort_key)

lemma dict_set_new: "k \<notin> fst ` set d \<Longrightarrow> dict_set d k v = d @ [(k, v)]"
  by (induction d k v rule: dict_set.induct) auto

lemma fold_dict_set_distinct:
  "distinct (map fst (acc @ kvs)) \<Longrightarrow>
   fold (\<lambda>kv d. dict_set d (fst kv) (snd kv)) kvs acc = acc @ kvs"
proof (induction kvs arbitrary: acc)
  case Nil
  then show ?case by simp
next
  case (Cons kv kvs)
  have new: "fst kv \<notin> fst ` set acc" using Cons.prems by auto
  have "distinct (map fst ((acc @ [kv]) @ kvs))" using Cons.prems by simp
  from Cons.IH[OF this] show ?case
    using dict_set_new[OF new, of "snd kv"] by simp
qed

lemma dict_of_pairs_distinct: "distinct (map fst kvs) \<Longrightarrow> dict_of_pairs kvs = kvs"
  using fold_dict_set_distinct[of "[]" kvs] by (simp add: dict_of_pairs_def)

lemma is_json_stock_item:
  "is_json_stock d \<Longrightarrow> kv \<in> set d \<Longrightarrow>
   join_surrogates (fst kv) = fst kv \<and> (\<exists>n. snd kv = PInt n \<and> int_fits n)"
  by (cases "snd kv") (auto simp: is_json_stock_def list_all_iff)

lemma first_error_None: "(\<And>e. e \<in> set es \<Longrightarrow> e = None) \<Longrightarrow> first_error es = None"
  by (induction es rule: first_error.induct) auto

lemma is_json_stock_dump:
  assumes "is_json_stock d"
  shows "dump_error (PDict d) = None"
proof -
  have "e = None" if "e \<in> set (map snd (sort_key fst (map (\<lambda>kv. (fst kv, dump_error (snd kv))) d)))" for e
  proof -
    from that obtain kv where "kv \<in> set d" "e = dump_error (snd kv)" by auto
    then show ?thesis using is_json_stock_item[OF assms, of kv] by auto
  qed
  then have "first_error (map snd (sort_key fst (map (\<lambda>kv. (fst kv, dump_error (snd kv))) d))) = None"
    by (rule first_error_None)
  then show ?thesis by simp
qed

lemma is_json_stock_reparsed:
  assumes "is_json_stock d"
  shows "reparsed (PDict d) = PDict (sort_key fst d)"
proof -
  have "(fst kv, reparsed (snd kv)) = kv" if "kv \<in> set d" for kv
    using is_json_stock_item[OF assms that] by (cases kv) auto
  then have m: "map (\<lambda>kv. (fst kv, reparsed (snd kv))) d = d"
    by (simp add: map_idI)
  have "(join_surrogates (fst kv), snd kv) = kv" if "kv \<in> set (sort_key fst d)" for kv
    using is_json_stock_item[OF assms, of kv] that by (cases kv) auto
  then have j: "map (\<lambda>kv. (join_surrogates (fst kv), snd kv)) (sort_key fst d) = sort_key fst d"
    by (rule map_idI)
  have "distinct (map fst (sort_key fst d))"
    using assms by (simp add: distinct_keys_sort_key is_json_stock_def)
  then show ?thesis by (simp add: m j dict_of_pairs_distinct)
qed

lemma save_data_ok:
  assumes "\<not> bad_path w (file_path self)" "nodes w (file_path self) \<noteq> Some Directory"
    "\<not> unwritable w (file_path self)" "dump_error (stock_data self) = None"
  shows "save_data w self =
     Returns (w\<lparr>nodes := (nodes w)(file_path self \<mapsto> File (Json_text (reparsed (stock_data self))))\<rparr>,
              self\<lparr>logs := logs self @ [Saved (file_path self)]\<rparr>)"
  using assms by (simp add: save_data_def write_json_def log_def)

lemma load_data_ok:
  assumes "nodes w (file_path self) = Some (File (Json_text v))" "\<not> unreadable w (file_path self)"
  shows "load_data w self =
     Returns (self\<lparr>stock_data := v, logs := logs self @ [Loaded (file_path self)]\<rparr>)"
  using assms by (simp add: load_data_def file_exists_def read_json_def log_def)

lemma roundtrip_when_saved:
  assumes "stock_data self = PDict d" "is_json_stock d" "\<not> bad_path w (file_path self)"
    "nodes w (file_path self) \<noteq> Some Directory" "\<not> unwritable w (file_path self)"
    "\<not> unreadable w (file_path self)"
  shows "\<exists>w' self1 self2 d'.
        save_data w self = Returns (w', self1) \<and> stock_data self1 = PDict d \<and>
        init w' (file_path self) = Returns self2 \<and> stock_data self2 = PDict d' \<and>
        distinct (map fst d') \<and> map_of d' = map_of d \<and>
        (\<forall>k. get_qty self2 k = get_qty self k)"
proof -
  let ?p = "file_path self"
  let ?w' = "w\<lparr>nodes := (nodes w)(?p \<mapsto> File (Json_text (PDict (sort_key fst d))))\<rparr>"
  have dist: "distinct (map fst d)" using assms(2) by (simp add: is_json_stock_def)
  have s: "save_data w self = Returns (?w', self\<lparr>logs := logs self @ [Saved ?p]\<rparr>)"
    using assms save_data_ok[of w self] is_json_stock_dump[of d] is_json_stock_reparsed[of d] by simp
  have l: "init ?w' ?p =
      Returns ((blank ?p)\<lparr>stock_data := PDict (sort_key fst d), logs := logs (blank ?p) @ [Loaded ?p]\<rparr>)"
    using assms(6) by (simp add: init_def load_data_def file_exists_def read_json_def log_def blank_def)
  have m: "map_of (sort_key fst d) = map_of d" using dist by (rule map_of_sort_key)
  show ?thesis
    using s l m dist assms(1)
    by (simp add: distinct_keys_sort_key get_qty_def dict_get_def)
qed

lemma add_long_quantity:
  "add_item (blank default_file) (PStr (pystr ''x'')) (PInt str_limit) =
     Raises ValueError
       \<lparr>file_path = default_file, stock_data = PDict [(pystr ''x'', PInt str_limit)], logs = []\<rparr>"
proof -
  have v: "is_valid_item (PStr (pystr ''x''))" "is_valid_qty (PInt str_limit)"
    using str_limit_pos
    by (simp_all add: is_valid_item_def is_valid_qty_def strip_def is_space_def pystr_def)
  show ?thesis
    using v not_fits_limit
    by (simp add: add_item_def validate_cases blank_def dict_get_def num_of_def log_formatted_def)
qed

lemma roundtrip_joins_surrogates:
  "save_data empty_world
     \<lparr>file_path = default_file, stock_data = PDict [([55357, 56832], PInt 1)], logs = []\<rparr> =
     Returns
       (empty_world\<lparr>nodes := (nodes empty_world)
          (default_file \<mapsto> File (Json_text (PDict [([128512], PInt 1)])))\<rparr>,
        \<lparr>file_path = default_file, stock_data = PDict [([55357, 56832], PInt 1)],
         logs = [Saved default_file]\<rparr>)"
  "init (empty_world\<lparr>nodes := (nodes empty_world)
          (default_file \<mapsto> File (Json_text (PDict [([128512], PInt 1)])))\<rparr>) default_file =
     Returns \<lparr>file_path = default_file, stock_data = PDict [([128512], PInt 1)],
              logs = [Loaded default_file]\<rparr>"
proof -
  have nul: "0 \<notin> set default_file" by (simp add: default_file_def pystr_def)
  show "save_data empty_world
     \<lparr>file_path = default_file, stock_data = PDict [([55357, 56832], PInt 1)], logs = []\<rparr> =
     Returns
       (empty_world\<lparr>nodes := (nodes empty_world)
          (default_file \<mapsto> File (Json_text (PDict [([128512], PInt 1)])))\<rparr>,
        \<lparr>file_path = default_file, stock_data = PDict [([55357, 56832], PInt 1)],
         logs = [Saved default_file]\<rparr>)"
    using nul
    by (simp add: save_data_def write_json_def bad_path_def log_def empty_world_def
        dict_of_pairs_def int_fits_small)
  show "init (empty_world\<lparr>nodes := (nodes empty_world)
          (default_file \<mapsto> File (Json_text (PDict [([128512], PInt 1)])))\<rparr>) default_file =
     Returns \<lparr>file_path = default_file, stock_data = PDict [([128512], PInt 1)],
              logs = [Loaded default_file]\<rparr>"
    by (simp add: init_def load_data_def file_exists_def read_json_def blank_def log_def
        empty_world_def)
qed

text \<open>
  C6. The round trip is lost for a stock that holds an integer of more than 4300 digits.
  \<open>add_item\<close> stores such a quantity before its message fails. \<open>json.dump\<close> then
  raises \<open>ValueError\<close> on the integer after \<open>save_data\<close> has opened the file; the
  handler does not name \<open>ValueError\<close>, so \<open>save_data\<close> raises, and the unfinished
  file it leaves is no JSON: a fresh instance on the path logs the decoding error and
  has an empty stock. When the stock is written and read back without an error, the
  fresh instance has the same keys and values (\<open>roundtrip_when_saved\<close>).
\<close>

theorem roundtrip_lost:
  "run_catching (blank default_file) [Add_item (PStr (pystr ''x'')) (PInt str_limit)] =
     Some \<lparr>file_path = default_file, stock_data = PDict [(pystr ''x'', PInt str_limit)], logs = []\<rparr> \<and>
   save_data empty_world
     \<lparr>file_path = default_file, stock_data = PDict [(pystr ''x'', PInt str_limit)], logs = []\<rparr> =
     Raises ValueError
       (empty_world\<lparr>nodes := (nodes empty_world)(default_file \<mapsto> File Not_json)\<rparr>,
        \<lparr>file_path = default_file, stock_data = PDict [(pystr ''x'', PInt str_limit)], logs = []\<rparr>) \<and>
   init (empty_world\<lparr>nodes := (nodes empty_world)(default_file \<mapsto> File Not_json)\<rparr>) default_file =
     Returns \<lparr>file_path = default_file, stock_data = PDict [],
              logs = [Error_loading JSONDecodeError]\<rparr>"
proof -
  have nul: "0 \<notin> set default_file" by (simp add: default_file_def pystr_def)
  show ?thesis
    using nul not_fits_limit add_long_quantity
    by (simp add: save_data_def write_json_def bad_path_def handled_def log_def empty_world_def
        init_def load_data_def file_exists_def read_json_def blank_def)
qed

section \<open>What load lets out\<close>

lemma load_data_no_file:
  "nodes w (file_path self) = None \<Longrightarrow> bad_path w (file_path self) \<or> \<not> unstatable w (file_path self) \<Longrightarrow>
   load_data w self = Returns (self\<lparr>logs := logs self @ [No_file]\<rparr>)"
  by (auto simp: load_data_def file_exists_def log_def)

lemma load_data_handled:
  "nodes w (file_path self) \<noteq> None \<Longrightarrow> read_json w (file_path self) = Exc e \<Longrightarrow> handled e \<Longrightarrow>
   load_data w self = Returns (self\<lparr>logs := logs self @ [Error_loading e]\<rparr>)"
  by (auto simp: load_data_def file_exists_def log_def)

lemma load_data_stat_refused:
  "nodes w (file_path self) = None \<Longrightarrow> \<not> bad_path w (file_path self) \<Longrightarrow> unstatable w (file_path self) \<Longrightarrow>
   load_data w self = Raises OSError self"
  by (simp add: load_data_def file_exists_def)

text \<open>
  C7. A file that exists but whose bytes are not UTF-8 makes \<open>json.load\<close> raise
  \<open>UnicodeDecodeError\<close>, which is neither an \<open>OSError\<close> nor a
  \<open>json.JSONDecodeError\<close>: \<open>load_data\<close>, and the constructor that calls it, raise it
  to the caller and log nothing. A missing file is logged, and so are a file that cannot
  be opened and a text that is no JSON; they leave the stock as it was, as the lemmas
  above say.
\<close>

theorem load_data_raises_on_bad_bytes:
  "load_data (empty_world\<lparr>nodes := (nodes empty_world)(default_file \<mapsto> File Not_utf8)\<rparr>)
     \<lparr>file_path = default_file, stock_data = PDict [(pystr ''apple'', PInt 7)], logs = []\<rparr> =
   Raises UnicodeDecodeError
     \<lparr>file_path = default_file, stock_data = PDict [(pystr ''apple'', PInt 7)], logs = []\<rparr> \<and>
   init (empty_world\<lparr>nodes := (nodes empty_world)(default_file \<mapsto> File Not_utf8)\<rparr>) default_file =
   Raises UnicodeDecodeError (blank default_file)"
  by (simp add: init_def load_data_def file_exists_def read_json_def handled_def empty_world_def blank_def)

section \<open>What save absorbs\<close>

lemma save_data_refused:
  assumes "\<not> bad_path w (file_path self)"
    "nodes w (file_path self) = Some Directory \<or> unwritable w (file_path self)"
  shows "save_data w self = Returns (w, self\<lparr>logs := logs self @ [Error_saving OSError]\<rparr>)"
  using assms by (auto simp: save_data_def write_json_def handled_def log_def)

lemma save_data_returns:
  assumes "\<not> bad_path w (file_path self)" "dump_error (stock_data self) = None"
  shows "\<exists>w' m. save_data w self = Returns (w', self\<lparr>logs := logs self @ [m]\<rparr>)"
proof (cases "nodes w (file_path self) = Some Directory \<or> unwritable w (file_path self)")
  case True
  then show ?thesis using save_data_refused[OF assms(1)] by blast
next
  case False
  then show ?thesis using save_data_ok[of w self] assms by blast
qed

lemma save_data_raises_type_error:
  "save_data empty_world
     \<lparr>file_path = default_file, stock_data = PDict [(pystr ''apple'', PBytes [255])], logs = []\<rparr> =
   Raises TypeError
     (empty_world\<lparr>nodes := (nodes empty_world)(default_file \<mapsto> File Not_json)\<rparr>,
      \<lparr>file_path = default_file, stock_data = PDict [(pystr ''apple'', PBytes [255])], logs = []\<rparr>)"
  by (simp add: save_data_def write_json_def bad_path_def handled_def empty_world_def
      default_file_def pystr_def)

text \<open>
  C8. \<open>save_data\<close> lets failures out. On a stock that holds an integer of more than
  4300 digits, which \<open>add_item\<close> stores before its message fails, \<open>json.dump\<close>
  raises \<open>ValueError\<close>; on a path with a NUL in it \<open>open\<close> raises
  \<open>ValueError\<close>. The handler names \<open>OSError\<close> and \<open>json.JSONDecodeError\<close>, which
  \<open>json.dump\<close> never raises, so \<open>save_data\<close> raises both to the caller and logs
  nothing; the first leaves an unfinished file. An \<open>OSError\<close> of \<open>open\<close> is logged
  and absorbed (\<open>save_data_refused\<close>).
\<close>

theorem save_data_raises_value_error:
  "add_item (blank default_file) (PStr (pystr ''x'')) (PInt str_limit) =
     Raises ValueError
       \<lparr>file_path = default_file, stock_data = PDict [(pystr ''x'', PInt str_limit)], logs = []\<rparr> \<and>
   save_data empty_world
     \<lparr>file_path = default_file, stock_data = PDict [(pystr ''x'', PInt str_limit)], logs = []\<rparr> =
     Raises ValueError
       (empty_world\<lparr>nodes := (nodes empty_world)(default_file \<mapsto> File Not_json)\<rparr>,
        \<lparr>file_path = default_file, stock_data = PDict [(pystr ''x'', PInt str_limit)], logs = []\<rparr>) \<and>
   save_data empty_world (blank [97, 0, 98]) = Raises ValueError (empty_world, blank [97, 0, 98])"
proof -
  have nul: "0 \<notin> set default_file" by (simp add: default_file_def pystr_def)
  show ?thesis
    using nul not_fits_limit add_long_quantity [unfolded blank_def]
    by (simp add: save_data_def write_json_def bad_path_def handled_def empty_world_def blank_def)
qed

section \<open>Leaving the block\<close>

lemma exit_ctx_None: "exit_ctx w self None = save_data w self"
  by (simp add: exit_ctx_def split: outcome.splits)

lemma exit_ctx_Some:
  "save_data w self = Returns (w', self') \<Longrightarrow> is_true e \<Longrightarrow>
   exit_ctx w self (Some e) = Returns (w', self'\<lparr>logs := logs self' @ [Error_occurred e]\<rparr>)"
  by (simp add: exit_ctx_def log_def)

lemma with_inventory_returns:
  "block (w, self) = Returns (w1, self1) \<Longrightarrow> with_inventory w self block = save_data w1 self1"
  by (simp add: with_inventory_def enter_def exit_ctx_None)

lemma with_inventory_reraises:
  assumes "block (w, self) = Raises e (w1, self1)" "is_true e"
    "\<not> bad_path w1 (file_path self1)" "dump_error (stock_data self1) = None"
  shows "\<exists>w2 self2.
         save_data w1 self1 = Returns (w2, self2) \<and>
         with_inventory w self block =
           Raises e (w2, self2\<lparr>logs := logs self2 @ [Error_occurred e]\<rparr>)"
proof -
  from save_data_returns[OF assms(3,4)]
  obtain w2 m where s: "save_data w1 self1 = Returns (w2, self1\<lparr>logs := logs self1 @ [m]\<rparr>)"
    by blast
  from exit_ctx_Some[OF s assms(2)] assms(1) s show ?thesis
    by (simp add: with_inventory_def enter_def)
qed

text \<open>
  C9. \<open>__exit__\<close> calls \<open>save_data\<close> first on every exit, but the exception of the
  block is not always logged and raised again. When \<open>save_data\<close> itself raises, its
  exception takes the place of the block's and nothing is logged: so on a path with a
  NUL in it, and so when the block stored a quantity of more than 4300 digits. And an
  exception object that is false is not logged, since the test is \<open>if exc_value:\<close>.
  When \<open>save_data\<close> returns and the exception object is true, the exception is logged
  after the entry of \<open>save_data\<close> and raised again (\<open>with_inventory_reraises\<close>).
\<close>

theorem exit_loses_the_error:
  "with_new_inventory empty_world [97, 0, 98] (raising_block (OtherError ''stop'')) =
     Raises ValueError
       (empty_world, \<lparr>file_path = [97, 0, 98], stock_data = PDict [], logs = [No_file]\<rparr>) \<and>
   with_new_inventory empty_world default_file
       (calls_block [Add_item (PStr (pystr ''x'')) (PInt str_limit)]) =
     Raises ValueError
       (empty_world\<lparr>nodes := (nodes empty_world)(default_file \<mapsto> File Not_json)\<rparr>,
        \<lparr>file_path = default_file, stock_data = PDict [(pystr ''x'', PInt str_limit)],
         logs = [No_file]\<rparr>) \<and>
   with_new_inventory empty_world default_file (raising_block (FalseError ''quiet'')) =
     Raises (FalseError ''quiet'')
       (empty_world\<lparr>nodes := (nodes empty_world)(default_file \<mapsto> File (Json_text (PDict [])))\<rparr>,
        \<lparr>file_path = default_file, stock_data = PDict [], logs = [No_file, Saved default_file]\<rparr>)"
proof -
  have nul: "0 \<notin> set default_file" by (simp add: default_file_def pystr_def)
  have v: "is_valid_item (PStr (pystr ''x''))" "is_valid_qty (PInt str_limit)"
    using str_limit_pos
    by (simp_all add: is_valid_item_def is_valid_qty_def strip_def is_space_def pystr_def)
  have a: "add_item \<lparr>file_path = default_file, stock_data = PDict [], logs = [No_file]\<rparr>
        (PStr (pystr ''x'')) (PInt str_limit) =
      Raises ValueError
        \<lparr>file_path = default_file, stock_data = PDict [(pystr ''x'', PInt str_limit)],
         logs = [No_file]\<rparr>"
    using v not_fits_limit
    by (simp add: add_item_def validate_cases dict_get_def num_of_def log_formatted_def)
  show ?thesis
    using nul not_fits_limit a
    by (simp add: with_new_inventory_def init_def load_data_def file_exists_def
        with_inventory_def enter_def exit_ctx_def raising_block_def calls_block_def
        save_data_def write_json_def bad_path_def handled_def empty_world_def blank_def log_def
        dict_of_pairs_def)
qed

section \<open>What load accepts\<close>

text \<open>
  C10. When the file parses, \<open>load_data\<close> binds \<open>stock_data\<close> to the parsed value as
  it is, whatever it is, and checks nothing. A file holding the object with apple 0 and
  pear -3 gives a fresh instance a stock with these two quantities, which is not a
  positive stock.
\<close>

theorem load_data_takes_any_json:
  "(nodes w (file_path self) = Some (File (Json_text v)) \<and> \<not> unreadable w (file_path self) \<longrightarrow>
      load_data w self =
        Returns (self\<lparr>stock_data := v, logs := logs self @ [Loaded (file_path self)]\<rparr>)) \<and>
   init (empty_world\<lparr>nodes := (nodes empty_world)
           (default_file \<mapsto>
              File (Json_text (PDict [(pystr ''apple'', PInt 0), (pystr ''pear'', PInt (- 3))])))\<rparr>)
     default_file =
     Returns \<lparr>file_path = default_file,
              stock_data = PDict [(pystr ''apple'', PInt 0), (pystr ''pear'', PInt (- 3))],
              logs = [Loaded default_file]\<rparr> \<and>
   \<not> is_positive_stock [(pystr ''apple'', PInt 0), (pystr ''pear'', PInt (- 3))]"
proof (intro conjI impI)
  assume "nodes w (file_path self) = Some (File (Json_text v)) \<and> \<not> unreadable w (file_path self)"
  then show "load_data w self =
        Returns (self\<lparr>stock_data := v, logs := logs self @ [Loaded (file_path self)]\<rparr>)"
    using load_data_ok by blast
next
  show "init (empty_world\<lparr>nodes := (nodes empty_world)
           (default_file \<mapsto>
              File (Json_text (PDict [(pystr ''apple'', PInt 0), (pystr ''pear'', PInt (- 3))])))\<rparr>)
     default_file =
     Returns \<lparr>file_path = default_file,
              stock_data = PDict [(pystr ''apple'', PInt 0), (pystr ''pear'', PInt (- 3))],
              logs = [Loaded default_file]\<rparr>"
    by (simp add: init_def load_data_def file_exists_def read_json_def blank_def log_def
        empty_world_def)
next
  show "\<not> is_positive_stock [(pystr ''apple'', PInt 0), (pystr ''pear'', PInt (- 3))]"
    by (simp add: is_positive_stock_def)
qed

theorem load_data_takes_any_json_witness:
  "nodes (empty_world\<lparr>nodes := (nodes empty_world)
            (default_file \<mapsto> File (Json_text (PList [PStr (pystr ''apple''), PFloat])))\<rparr>)
     default_file = Some (File (Json_text (PList [PStr (pystr ''apple''), PFloat]))) \<and>
   \<not> unreadable (empty_world\<lparr>nodes := (nodes empty_world)
            (default_file \<mapsto> File (Json_text (PList [PStr (pystr ''apple''), PFloat])))\<rparr>)
     default_file \<and>
   load_data (empty_world\<lparr>nodes := (nodes empty_world)
            (default_file \<mapsto> File (Json_text (PList [PStr (pystr ''apple''), PFloat])))\<rparr>)
     \<lparr>file_path = default_file, stock_data = PDict [(pystr ''kiwi'', PInt 4)], logs = []\<rparr> =
     Returns \<lparr>file_path = default_file, stock_data = PList [PStr (pystr ''apple''), PFloat],
              logs = [Loaded default_file]\<rparr>"
  using load_data_takes_any_json
    [of "empty_world\<lparr>nodes := (nodes empty_world)
            (default_file \<mapsto> File (Json_text (PList [PStr (pystr ''apple''), PFloat])))\<rparr>"
        "\<lparr>file_path = default_file, stock_data = PDict [(pystr ''kiwi'', PInt 4)], logs = []\<rparr>"
        "PList [PStr (pystr ''apple''), PFloat]"]
  by (simp add: empty_world_def)

section \<open>The demo, run\<close>

lemma main_example:
  "main empty_world =
     Returns
       (empty_world\<lparr>nodes := (nodes empty_world)
          (default_file \<mapsto>
             File (Json_text (PDict [(pystr ''apple'', PInt 7), (pystr ''banana'', PInt 5),
                                     (pystr ''pear'', PInt 2)])))\<rparr>,
        \<lparr>file_path = default_file,
         stock_data = PDict [(pystr ''apple'', PInt 7), (pystr ''banana'', PInt 5), (pystr ''pear'', PInt 2)],
         logs = [No_file,
                 Added (PInt 10) (pystr ''apple'') (PInt 10), Added (PInt 5) (pystr ''banana'') (PInt 5),
                 Added (PInt 2) (pystr ''pear'') (PInt 2), Removed (PInt 3) (pystr ''apple'') (PInt 7),
                 Not_found (pystr ''orange''), Low_stock [pystr ''pear''], Saved default_file]\<rparr>)"
  by (simp add: main_def with_new_inventory_def init_def load_data_def file_exists_def blank_def
      empty_world_def with_inventory_def enter_def exit_ctx_def save_data_def write_json_def
      bad_path_def default_file_def dict_of_pairs_def
      main_block_def add_item_def remove_item_def validate_def rejected_def
      validate_item_def validate_qty_def strip_def is_space_def pystr_def num_of_def
      dict_get_def dict_has_def log_def log_formatted_def int_fits_small
      get_qty_def check_low_items_def default_threshold_def)

end
